theory Spec2Isabelle
  imports Main "HOL-Library.Word"
begin

section \<open>The embedded shell of dimutils: builtin dispatch and session modes\<close>

text \<open>
  This theory embeds the Go package \<^verbatim>\<open>pkg/shell\<close> (files \<^verbatim>\<open>builtins.go\<close> and the
  shell front end with \<^verbatim>\<open>Run\<close>, \<^verbatim>\<open>runInteractive\<close>, \<^verbatim>\<open>runPipedScript\<close>,
  \<^verbatim>\<open>runCommand\<close>, \<^verbatim>\<open>runScript\<close>) and the cobra command \<^verbatim>\<open>goshCmd\<close> of
  \<^verbatim>\<open>cmd/dimutils/commands.go\<close> that calls it.

  Third-party libraries (the \<^verbatim>\<open>mvdan.cc/sh\<close> parser and interpreter, gojq, yq, kubectl,
  the databricks CLI, go-make) and the collaborator packages reached through
  \<^verbatim>\<open>Run(args) error\<close> are not part of the package. They are fields of an environment
  record, arbitrary functions on the process state, and every theorem holds for all of them.
\<close>

subsection \<open>Errors, process state and outcomes of a call\<close>

text \<open>
  A Go \<^verbatim>\<open>error\<close> value. The interpreter library has one distinguished kind of error, the
  exit status (an unsigned 8-bit number, which the shell converts with \<^verbatim>\<open>int(status)\<close>);
  every other error is known to this package by its message only.
\<close>

datatype goerr = ExitStatus "8 word" | ErrorString string

fun digits :: "nat \<Rightarrow> string" where
  "digits n = (if n < 10 then [''0123456789'' ! n]
               else digits (n div 10) @ [''0123456789'' ! (n mod 10)])"

declare digits.simps [simp del]

definition show_int :: "int \<Rightarrow> string" where
  "show_int i = (if i < 0 then CHR ''-'' # digits (nat (- i)) else digits (nat i))"

text \<open>The message of an error, as the verb \<^verbatim>\<open>%v\<close> prints it.\<close>

fun Error :: "goerr \<Rightarrow> string" where
  "Error (ExitStatus st) = ''exit status '' @ digits (unat st)"
| "Error (ErrorString m) = m"

text \<open>\<^verbatim>\<open>interp.IsExitStatus(err)\<close>: the status and whether the error is an exit status.\<close>

fun IsExitStatus :: "goerr \<Rightarrow> 8 word \<times> bool" where
  "IsExitStatus (ExitStatus st) = (st, True)"
| "IsExitStatus (ErrorString m) = (0, False)"

text \<open>
  The state of the process as far as the builtins touch it: the global \<^verbatim>\<open>os.Args\<close> and
  everything else (file system, streams, the interpreter's variables), which stays abstract.
\<close>

record 'w gstate =
  os_Args :: "string list"
  world :: 'w

text \<open>
  A call either returns a value in a new state, or it ends the process with
  \<^verbatim>\<open>os.Exit(code)\<close>; the state is then the one at the moment of the exit. Deferred
  functions of the callers run in the first case only.
\<close>

datatype ('a, 's) outcome = Returns 'a 's | Exits int 's

fun outcome_state :: "('a, 's) outcome \<Rightarrow> 's" where
  "outcome_state (Returns v s) = s"
| "outcome_state (Exits c s) = s"

type_synonym ('c, 'w) BuiltinFunc =
  "'c \<Rightarrow> string list \<Rightarrow> 'w gstate \<Rightarrow> (goerr option, 'w gstate) outcome"

subsection \<open>The environment: libraries and operating system\<close>

datatype pkg = Gitaskop | Eventdiff | Unexpect | Serve | Ebcdic | Cbxxml2regex
  | Regex2json | Tandum | Mkgchat | Togchat

datatype parse_error = ParseError (incomplete: bool) (message: string)

text \<open>\<^verbatim>\<open>syntax.IsIncomplete(err)\<close>.\<close>

definition IsIncomplete :: "parse_error \<Rightarrow> bool" where
  "IsIncomplete err = incomplete err"

type_synonym ('p, 'w) runner = "'p \<Rightarrow> 'w gstate \<Rightarrow> (goerr option, 'w gstate) outcome"

record ('c, 'w, 'm, 'p) env =
  pkg_Run :: "pkg \<Rightarrow> string list \<Rightarrow> 'w gstate \<Rightarrow> (goerr option, 'w gstate) outcome"
  cli_Run :: "'w gstate \<Rightarrow> (int, 'w gstate) outcome"
  yq_Execute :: "string list \<Rightarrow> 'w gstate \<Rightarrow> (goerr option, 'w gstate) outcome"
  kubectl_Execute :: "string list \<Rightarrow> 'w gstate \<Rightarrow> (goerr option, 'w gstate) outcome"
  databricks_Execute :: "'c \<Rightarrow> string list \<Rightarrow> 'w gstate \<Rightarrow> (goerr option, 'w gstate) outcome"
  makecmd_New :: "string \<Rightarrow> 'w gstate \<Rightarrow> (goerr + 'm, 'w gstate) outcome"
  BuildDefault :: "'m \<Rightarrow> 'w gstate \<Rightarrow> (goerr option, 'w gstate) outcome"
  Build :: "'m \<Rightarrow> string \<Rightarrow> 'w gstate \<Rightarrow> (goerr option, 'w gstate) outcome"
  DefaultExecHandler :: "nat \<Rightarrow> ('c, 'w) BuiltinFunc"
  interp_New :: "('c, 'w) BuiltinFunc \<Rightarrow> goerr + ('p, 'w) runner"
  Parse :: "string \<Rightarrow> string \<Rightarrow> parse_error + 'p"
  IsTerminal :: bool
  stdin_lines :: "string list"
  stdin_scan_err :: "goerr option"
  stdin_ReadAll :: "goerr + string"
  os_Open :: "string \<Rightarrow> goerr + string"

text \<open>
  \<^item> \<open>pkg_Run p\<close> is \<^verbatim>\<open>p.Run(args)\<close> of a collaborator package; \<open>cli_Run\<close> is gojq's
    \<^verbatim>\<open>cli.Run()\<close>, which reads \<^verbatim>\<open>os.Args\<close> and returns an exit code; \<open>yq_Execute\<close>,
    \<open>kubectl_Execute\<close> and \<open>databricks_Execute\<close> build the cobra command, set its
    arguments and execute it.
  \<^item> \<open>DefaultExecHandler n\<close> is \<^verbatim>\<open>interp.DefaultExecHandler(n)\<close>, the library's executor
    of external processes.
  \<^item> \<open>interp_New h\<close> is \<^verbatim>\<open>interp.New(interp.StdIO(..), interp.ExecHandler(h))\<close>; a runner
    is known by what its method \<^verbatim>\<open>Run(context.Background(), prog)\<close> does.
  \<^item> \<open>Parse src name\<close> is \<^verbatim>\<open>parser.Parse(reader, name)\<close> on a reader that yields \<open>src\<close>.
  \<^item> \<open>stdin_lines\<close> are the lines that the \<^verbatim>\<open>bufio.Scanner\<close> on standard input delivers
    until \<^verbatim>\<open>Scan\<close> returns false, \<open>stdin_scan_err\<close> is \<^verbatim>\<open>scanner.Err()\<close> after that;
    \<open>stdin_ReadAll\<close> is \<^verbatim>\<open>io.ReadAll(os.Stdin)\<close>; \<open>os_Open name\<close> gives the contents
    of the file or the error of opening it.
\<close>

subsection \<open>builtins.go: the builtin implementations\<close>

definition runGitaskop :: "('c, 'w, 'm, 'p) env \<Rightarrow> ('c, 'w) BuiltinFunc" where
  "runGitaskop env ctx args s = pkg_Run env Gitaskop args s"

definition runEventdiff :: "('c, 'w, 'm, 'p) env \<Rightarrow> ('c, 'w) BuiltinFunc" where
  "runEventdiff env ctx args s = pkg_Run env Eventdiff args s"

definition runUnexpect :: "('c, 'w, 'm, 'p) env \<Rightarrow> ('c, 'w) BuiltinFunc" where
  "runUnexpect env ctx args s = pkg_Run env Unexpect args s"

definition runServe :: "('c, 'w, 'm, 'p) env \<Rightarrow> ('c, 'w) BuiltinFunc" where
  "runServe env ctx args s = pkg_Run env Serve args s"

definition runEbcdic :: "('c, 'w, 'm, 'p) env \<Rightarrow> ('c, 'w) BuiltinFunc" where
  "runEbcdic env ctx args s = pkg_Run env Ebcdic args s"

definition runCbxxml2regex :: "('c, 'w, 'm, 'p) env \<Rightarrow> ('c, 'w) BuiltinFunc" where
  "runCbxxml2regex env ctx args s = pkg_Run env Cbxxml2regex args s"

definition runRegex2json :: "('c, 'w, 'm, 'p) env \<Rightarrow> ('c, 'w) BuiltinFunc" where
  "runRegex2json env ctx args s = pkg_Run env Regex2json args s"

definition runTandum :: "('c, 'w, 'm, 'p) env \<Rightarrow> ('c, 'w) BuiltinFunc" where
  "runTandum env ctx args s = pkg_Run env Tandum args s"

definition runMkgchat :: "('c, 'w, 'm, 'p) env \<Rightarrow> ('c, 'w) BuiltinFunc" where
  "runMkgchat env ctx args s = pkg_Run env Mkgchat args s"

definition runTogchat :: "('c, 'w, 'm, 'p) env \<Rightarrow> ('c, 'w) BuiltinFunc" where
  "runTogchat env ctx args s = pkg_Run env Togchat args s"

text \<open>
  The four wrappers of foreign command lines save \<^verbatim>\<open>os.Args\<close>, overwrite it, call the
  library and restore it in a deferred function, which runs when the wrapper returns and
  does not run when the library ends the process.
\<close>

definition runJq :: "('c, 'w, 'm, 'p) env \<Rightarrow> ('c, 'w) BuiltinFunc" where
  "runJq env ctx args s =
     (let oldArgs = os_Args s;
          s1 = s\<lparr>os_Args := ''gojq'' # args\<rparr>
      in case cli_Run env s1 of
           Exits c s2 \<Rightarrow> Exits c s2
         | Returns exitCode s2 \<Rightarrow>
             (if exitCode \<noteq> 0
              then Returns (Some (ErrorString (''jq exited with code '' @ show_int exitCode)))
                     (s2\<lparr>os_Args := oldArgs\<rparr>)
              else Returns None (s2\<lparr>os_Args := oldArgs\<rparr>)))"

definition runYq :: "('c, 'w, 'm, 'p) env \<Rightarrow> ('c, 'w) BuiltinFunc" where
  "runYq env ctx args s =
     (let oldArgs = os_Args s;
          s1 = s\<lparr>os_Args := ''yq'' # args\<rparr>
      in case yq_Execute env args s1 of
           Exits c s2 \<Rightarrow> Exits c s2
         | Returns r s2 \<Rightarrow> Returns r (s2\<lparr>os_Args := oldArgs\<rparr>))"

definition runKubectl :: "('c, 'w, 'm, 'p) env \<Rightarrow> ('c, 'w) BuiltinFunc" where
  "runKubectl env ctx args s =
     (let oldArgs = os_Args s;
          s1 = s\<lparr>os_Args := ''kubectl'' # args\<rparr>
      in case kubectl_Execute env args s1 of
           Exits c s2 \<Rightarrow> Exits c s2
         | Returns r s2 \<Rightarrow> Returns r (s2\<lparr>os_Args := oldArgs\<rparr>))"

definition runDatabricks :: "('c, 'w, 'm, 'p) env \<Rightarrow> ('c, 'w) BuiltinFunc" where
  "runDatabricks env ctx args s =
     (let oldArgs = os_Args s;
          s1 = s\<lparr>os_Args := ''databricks'' # args\<rparr>
      in case databricks_Execute env ctx args s1 of
           Exits c s2 \<Rightarrow> Exits c s2
         | Returns r s2 \<Rightarrow> Returns r (s2\<lparr>os_Args := oldArgs\<rparr>))"

text \<open>The loop of \<^verbatim>\<open>runMake\<close> over the targets: the first failing build ends it.\<close>

fun build_targets ::
  "('c, 'w, 'm, 'p) env \<Rightarrow> 'm \<Rightarrow> string list \<Rightarrow> 'w gstate \<Rightarrow> (goerr option, 'w gstate) outcome"
where
  "build_targets env mk [] s = Returns None s"
| "build_targets env mk (target # rest) s =
     (case Build env mk target s of
        Exits c s1 \<Rightarrow> Exits c s1
      | Returns (Some err) s1 \<Rightarrow>
          Returns (Some (ErrorString
            (''error building target '' @ [CHR 0x27] @ target @ [CHR 0x27] @ '': '' @ Error err))) s1
      | Returns None s1 \<Rightarrow> build_targets env mk rest s1)"

definition runMake :: "('c, 'w, 'm, 'p) env \<Rightarrow> ('c, 'w) BuiltinFunc" where
  "runMake env ctx args s =
     (case makecmd_New env ''Makefile'' s of
        Exits c s1 \<Rightarrow> Exits c s1
      | Returns (Inl err) s1 \<Rightarrow>
          Returns (Some (ErrorString (''error creating make command: '' @ Error err))) s1
      | Returns (Inr makeCommand) s1 \<Rightarrow>
          (if length args = 0 then BuildDefault env makeCommand s1
           else build_targets env makeCommand args s1))"

subsection \<open>builtins.go: the registry and the exec handler\<close>

definition builtins :: "('c, 'w, 'm, 'p) env \<Rightarrow> string \<rightharpoonup> ('c, 'w) BuiltinFunc" where
  "builtins env = map_of
     [(''gitaskop'', runGitaskop env),
      (''eventdiff'', runEventdiff env),
      (''unexpect'', runUnexpect env),
      (''serve'', runServe env),
      (''ebcdic'', runEbcdic env),
      (''cbxxml2regex'', runCbxxml2regex env),
      (''regex2json'', runRegex2json env),
      (''tandum'', runTandum env),
      (''mkgchat'', runMkgchat env),
      (''togchat'', runTogchat env),
      (''jq'', runJq env),
      (''yq'', runYq env),
      (''kubectl'', runKubectl env),
      (''databricks'', runDatabricks env),
      (''make'', runMake env)]"

definition createExecHandler :: "('c, 'w, 'm, 'p) env \<Rightarrow> ('c, 'w) BuiltinFunc" where
  "createExecHandler env ctx args s =
     (if length args = 0 then Returns None s
      else
        let cmdName = args ! 0 in
        case builtins env cmdName of
          Some builtin \<Rightarrow> builtin ctx (drop 1 args) s
        | None \<Rightarrow> DefaultExecHandler env (2 * 1024 * 1024) ctx args s)"

subsection \<open>The session: what the shell itself does\<close>

text \<open>
  The shell's own actions are recorded in order: what it prints to standard output and to
  standard error, each call of \<^verbatim>\<open>runner.Run\<close> with the program it runs, and the opening
  and closing of the script file. The libraries act on the process state \<open>proc\<close>.
\<close>

datatype 'p event =
    Stdout string
  | Stderr string
  | RunnerRun 'p
  | FileOpened string
  | FileClosed string

record ('p, 'w) sess =
  log :: "'p event list"
  proc :: "'w gstate"

definition emit :: "'p event \<Rightarrow> ('p, 'w) sess \<Rightarrow> ('p, 'w) sess" where
  "emit e s = s\<lparr>log := log s @ [e]\<rparr>"

text \<open>\<^verbatim>\<open>runner.Run(context.Background(), prog)\<close>, recorded.\<close>

definition runner_Run ::
  "('p, 'w) runner \<Rightarrow> 'p \<Rightarrow> ('p, 'w) sess \<Rightarrow> (goerr option, ('p, 'w) sess) outcome"
where
  "runner_Run runner prog s =
     (case runner prog (proc s) of
        Exits c g \<Rightarrow> Exits c (s\<lparr>log := log s @ [RunnerRun prog], proc := g\<rparr>)
      | Returns r g \<Rightarrow> Returns r (s\<lparr>log := log s @ [RunnerRun prog], proc := g\<rparr>))"

definition prompt :: string where
  "prompt = ''dim > ''"

subsection \<open>The four modes\<close>

text \<open>
  One turn of the loop of \<^verbatim>\<open>runInteractive\<close>: the line is appended to the buffer
  \<open>src\<close> with a newline and the buffer is parsed. The value returned is the buffer for
  the next turn.
\<close>

definition interactive_body ::
  "('c, 'w, 'm, 'p) env \<Rightarrow> ('p, 'w) runner \<Rightarrow> string \<Rightarrow> string \<Rightarrow> ('p, 'w) sess
     \<Rightarrow> (string, ('p, 'w) sess) outcome"
where
  "interactive_body env runner line src s =
     (let src1 = src @ line @ ''\<newline>'' in
      case Parse env src1 [] of
        Inl err \<Rightarrow>
          (if IsIncomplete err then Returns src1 (emit (Stdout ''> '') s)
           else Returns []
                  (emit (Stdout prompt)
                    (emit (Stderr (''parse error: '' @ message err @ ''\<newline>'')) s)))
      | Inr prog \<Rightarrow>
          (case runner_Run runner prog s of
             Exits c s1 \<Rightarrow> Exits c s1
           | Returns None s1 \<Rightarrow> Returns [] (emit (Stdout prompt) s1)
           | Returns (Some err) s1 \<Rightarrow>
               (case IsExitStatus err of
                  (status, True) \<Rightarrow> Exits (uint status) s1
                | (status, False) \<Rightarrow>
                    Returns []
                      (emit (Stdout prompt)
                        (emit (Stderr (''runtime error: '' @ Error err @ ''\<newline>'')) s1)))))"

text \<open>The loop \<^verbatim>\<open>for scanner.Scan() { ... }\<close> over the lines that the scanner delivers.\<close>

fun scan_loop ::
  "('c, 'w, 'm, 'p) env \<Rightarrow> ('p, 'w) runner \<Rightarrow> string list \<Rightarrow> string \<Rightarrow> ('p, 'w) sess
     \<Rightarrow> (string, ('p, 'w) sess) outcome"
where
  "scan_loop env runner [] src s = Returns src s"
| "scan_loop env runner (line # rest) src s =
     (case interactive_body env runner line src s of
        Exits c s1 \<Rightarrow> Exits c s1
      | Returns src1 s1 \<Rightarrow> scan_loop env runner rest src1 s1)"

definition runInteractive ::
  "('c, 'w, 'm, 'p) env \<Rightarrow> ('p, 'w) runner \<Rightarrow> ('p, 'w) sess
     \<Rightarrow> (goerr option, ('p, 'w) sess) outcome"
where
  "runInteractive env runner s =
     (case scan_loop env runner (stdin_lines env) [] (emit (Stdout prompt) s) of
        Exits c s1 \<Rightarrow> Exits c s1
      | Returns src s1 \<Rightarrow>
          (case stdin_scan_err env of
             Some err \<Rightarrow> Returns (Some (ErrorString (''reading input: '' @ Error err))) s1
           | None \<Rightarrow> Returns None s1))"

definition runPipedScript ::
  "('c, 'w, 'm, 'p) env \<Rightarrow> ('p, 'w) runner \<Rightarrow> ('p, 'w) sess
     \<Rightarrow> (goerr option, ('p, 'w) sess) outcome"
where
  "runPipedScript env runner s =
     (case stdin_ReadAll env of
        Inl err \<Rightarrow> Returns (Some (ErrorString (''reading piped input: '' @ Error err))) s
      | Inr input \<Rightarrow>
          (if length input = 0 then Returns None s
           else
             case Parse env input [] of
               Inl err \<Rightarrow> Returns (Some (ErrorString (''parse error: '' @ message err))) s
             | Inr prog \<Rightarrow>
                 (case runner_Run runner prog s of
                    Exits c s1 \<Rightarrow> Exits c s1
                  | Returns None s1 \<Rightarrow> Returns None s1
                  | Returns (Some err) s1 \<Rightarrow>
                      (case IsExitStatus err of
                         (status, True) \<Rightarrow> Exits (uint status) s1
                       | (status, False) \<Rightarrow>
                           Returns (Some (ErrorString (''runtime error: '' @ Error err))) s1))))"

definition runCommand ::
  "('c, 'w, 'm, 'p) env \<Rightarrow> ('p, 'w) runner \<Rightarrow> string \<Rightarrow> ('p, 'w) sess
     \<Rightarrow> (goerr option, ('p, 'w) sess) outcome"
where
  "runCommand env runner command s =
     (case Parse env command [] of
        Inl err \<Rightarrow> Returns (Some (ErrorString (''parse error: '' @ message err))) s
      | Inr prog \<Rightarrow>
          (case runner_Run runner prog s of
             Exits c s1 \<Rightarrow> Exits c s1
           | Returns None s1 \<Rightarrow> Returns None s1
           | Returns (Some err) s1 \<Rightarrow>
               (case IsExitStatus err of
                  (status, True) \<Rightarrow> Exits (uint status) s1
                | (status, False) \<Rightarrow>
                    Returns (Some (ErrorString (''runtime error: '' @ Error err))) s1)))"

text \<open>
  \<^verbatim>\<open>runScript\<close> defers \<^verbatim>\<open>file.Close()\<close> once the file is open. The deferred call runs on
  each \<^verbatim>\<open>return\<close>; \<^verbatim>\<open>os.Exit\<close> ends the process at once and runs no deferred call.
\<close>

definition runScript ::
  "('c, 'w, 'm, 'p) env \<Rightarrow> ('p, 'w) runner \<Rightarrow> string \<Rightarrow> ('p, 'w) sess
     \<Rightarrow> (goerr option, ('p, 'w) sess) outcome"
where
  "runScript env runner filename s =
     (case os_Open env filename of
        Inl err \<Rightarrow> Returns (Some (ErrorString (''opening script file: '' @ Error err))) s
      | Inr contents \<Rightarrow>
          (let s0 = emit (FileOpened filename) s in
           case Parse env contents filename of
             Inl err \<Rightarrow>
               Returns (Some (ErrorString (''parse error: '' @ message err)))
                 (emit (FileClosed filename) s0)
           | Inr prog \<Rightarrow>
               (case runner_Run runner prog s0 of
                  Exits c s1 \<Rightarrow> Exits c s1
                | Returns None s1 \<Rightarrow> Returns None (emit (FileClosed filename) s1)
                | Returns (Some err) s1 \<Rightarrow>
                    (case IsExitStatus err of
                       (status, True) \<Rightarrow> Exits (uint status) s1
                     | (status, False) \<Rightarrow>
                         Returns (Some (ErrorString (''runtime error: '' @ Error err)))
                           (emit (FileClosed filename) s1)))))"

subsection \<open>The entry point and its caller\<close>

definition Run ::
  "('c, 'w, 'm, 'p) env \<Rightarrow> string list \<Rightarrow> ('p, 'w) sess \<Rightarrow> (goerr option, ('p, 'w) sess) outcome"
where
  "Run env args s =
     (case interp_New env (createExecHandler env) of
        Inl err \<Rightarrow>
          Returns (Some (ErrorString (''error creating shell interpreter: '' @ Error err))) s
      | Inr runner \<Rightarrow>
          (if length args = 0 then
             (if IsTerminal env then runInteractive env runner s
              else runPipedScript env runner s)
           else if length args = 2 \<and> args ! 0 = ''-c'' then runCommand env runner (args ! 1) s
           else runScript env runner (args ! 0) s))"

text \<open>
  The function \<^verbatim>\<open>Run\<close> of \<^verbatim>\<open>goshCmd\<close> in \<^verbatim>\<open>cmd/dimutils/commands.go\<close>: an error of
  the shell is printed and the process exits with code 1.
\<close>

definition goshCmd_Run ::
  "('c, 'w, 'm, 'p) env \<Rightarrow> string list \<Rightarrow> ('p, 'w) sess \<Rightarrow> (unit, ('p, 'w) sess) outcome"
where
  "goshCmd_Run env args s =
     (case Run env args s of
        Exits c s1 \<Rightarrow> Exits c s1
      | Returns (Some err) s1 \<Rightarrow>
          Exits 1 (emit (Stderr (''Error: '' @ Error err @ ''\<newline>'')) s1)
      | Returns None s1 \<Rightarrow> Returns () s1)"

subsection \<open>Mode selection as the specification words it\<close>

datatype mode = Interactive | PipedScript | CommandString string | FileScript string

text \<open>
  The specification's rule: no argument selects Interactive on a terminal and PipedScript
  otherwise; exactly two arguments of which the first is the flag \<^verbatim>\<open>-c\<close> select
  CommandString with the second; any other non-empty list selects FileScript with the first.
\<close>

fun spec_select_mode :: "string list \<Rightarrow> bool \<Rightarrow> mode" where
  "spec_select_mode [] tty = (if tty then Interactive else PipedScript)"
| "spec_select_mode [a, b] tty = (if a = ''-c'' then CommandString b else FileScript a)"
| "spec_select_mode (a # rest) tty = FileScript a"

fun run_mode ::
  "('c, 'w, 'm, 'p) env \<Rightarrow> ('p, 'w) runner \<Rightarrow> mode \<Rightarrow> ('p, 'w) sess
     \<Rightarrow> (goerr option, ('p, 'w) sess) outcome"
where
  "run_mode env runner Interactive s = runInteractive env runner s"
| "run_mode env runner PipedScript s = runPipedScript env runner s"
| "run_mode env runner (CommandString command) s = runCommand env runner command s"
| "run_mode env runner (FileScript filename) s = runScript env runner filename s"

text \<open>The programs that a log shows as run, in order.\<close>

fun runs :: "'p event list \<Rightarrow> 'p list" where
  "runs [] = []"
| "runs (RunnerRun p # es) = p # runs es"
| "runs (e # es) = runs es"

text \<open>The lines of a buffer, each followed by a newline, as the loop accumulates them.\<close>

fun joined :: "string list \<Rightarrow> string" where
  "joined [] = []"
| "joined (line # rest) = line @ ''\<newline>'' @ joined rest"

text \<open>
  What remains of \<^verbatim>\<open>runInteractive\<close> when the loop stands at the buffer \<open>src\<close> with the
  lines \<open>rest\<close> still to come: the loop over them and the test of \<^verbatim>\<open>scanner.Err()\<close>
  after it. This is notation only, used to state how a session goes on.
\<close>

abbreviation session_rest ::
  "('c, 'w, 'm, 'p) env \<Rightarrow> ('p, 'w) runner \<Rightarrow> string list \<Rightarrow> string \<Rightarrow> ('p, 'w) sess
     \<Rightarrow> (goerr option, ('p, 'w) sess) outcome"
where
  "session_rest env runner rest src s \<equiv>
     (case scan_loop env runner rest src s of
        Exits c s1 \<Rightarrow> Exits c s1
      | Returns src1 s1 \<Rightarrow>
          (case stdin_scan_err env of
             Some err \<Rightarrow> Returns (Some (ErrorString (''reading input: '' @ Error err))) s1
           | None \<Rightarrow> Returns None s1))"

subsection \<open>A small concrete environment\<close>

text \<open>
  An environment on which the definitions can be evaluated. Its parser knows a few source
  texts, a program is one command (its argument list), and its runner hands the command to
  the exec handler it was created with. The collaborator packages end with exit status 7 on
  the argument \<^verbatim>\<open>exit7\<close> and fail on the argument \<^verbatim>\<open>fail\<close>; the foreign command lines
  overwrite \<^verbatim>\<open>os.Args\<close>.
\<close>

definition demo_Parse :: "string \<Rightarrow> string \<Rightarrow> parse_error + string list" where
  "demo_Parse src name =
     (if src = ''ebcdic exit7'' \<or> src = ''ebcdic exit7\<newline>'' then Inr [''ebcdic'', ''exit7'']
      else if src = ''ebcdic fail'' \<or> src = ''ebcdic fail\<newline>'' then Inr [''ebcdic'', ''fail'']
      else if src = ''{\<newline>'' \<or> src = ''{\<newline>jq .\<newline>''
        then Inl (ParseError True ''reached EOF without matching { with }'')
      else if src = ''{\<newline>jq .\<newline>}\<newline>'' then Inr [''jq'', ''.'']
      else Inl (ParseError False ''not a valid command''))"

definition demo_env :: "bool \<Rightarrow> string list \<Rightarrow> string \<Rightarrow> (unit, nat, unit, string list) env" where
  "demo_env tty lines input =
     \<lparr>pkg_Run = (\<lambda>p args s.
         if args = [''exit7''] then Returns (Some (ExitStatus 7)) s
         else if args = [''fail''] then Returns (Some (ErrorString ''boom'')) s
         else Returns None (s\<lparr>world := Suc (world s)\<rparr>)),
      cli_Run = (\<lambda>s. Returns (int (length (os_Args s)) - 1) (s\<lparr>os_Args := []\<rparr>)),
      yq_Execute = (\<lambda>args s. Returns None (s\<lparr>os_Args := []\<rparr>)),
      kubectl_Execute = (\<lambda>args s. Returns (Some (ErrorString ''no cluster'')) (s\<lparr>os_Args := args\<rparr>)),
      databricks_Execute = (\<lambda>ctx args s. Returns None (s\<lparr>os_Args := [''x'']\<rparr>)),
      makecmd_New = (\<lambda>file s. Returns (Inr ()) s),
      BuildDefault = (\<lambda>mk s. Returns None s),
      Build = (\<lambda>mk target s. Returns None s),
      DefaultExecHandler = (\<lambda>n ctx args s. Returns (Some (ExitStatus 127)) s),
      interp_New = (\<lambda>handler. Inr (\<lambda>prog s. handler () prog s)),
      Parse = demo_Parse,
      IsTerminal = tty,
      stdin_lines = lines,
      stdin_scan_err = None,
      stdin_ReadAll = Inr input,
      os_Open = (\<lambda>name. if name = ''exit7.sh'' then Inr ''ebcdic exit7\<newline>''
                          else if name = ''bad.sh'' then Inr '')''
                          else Inl (ErrorString ''no such file or directory''))\<rparr>"

definition demo_state :: "(string list, nat) sess" where
  "demo_state = \<lparr>log = [], proc = \<lparr>os_Args = [''dimutils'', ''shell''], world = 0\<rparr>\<rparr>"


section \<open>Properties\<close>

subsection \<open>Dispatch\<close>

text \<open>
  C7. For the empty argument list the exec handler returns success at once: the result
  is \<open>nil\<close> and the process state is the one it was called in, whatever the builtins
  and the executor of external processes are, so none of them has run.
\<close>

theorem createExecHandler_empty:
  "createExecHandler env ctx [] s = Returns None s"
  by (simp add: createExecHandler_def)

lemma build_targets_ignore_executor:
  "build_targets (env\<lparr>DefaultExecHandler := d\<rparr>) mk ts s = build_targets env mk ts s"
  by (induction ts arbitrary: s) (simp_all split: outcome.splits option.splits)

lemma runMake_ignore_executor:
  "runMake (env\<lparr>DefaultExecHandler := d\<rparr>) = runMake env"
  by (simp add: runMake_def fun_eq_iff build_targets_ignore_executor
      split: outcome.splits sum.splits)

lemma builtins_ignore_executor:
  "builtins (env\<lparr>DefaultExecHandler := d\<rparr>) = builtins env"
  by (simp add: builtins_def runGitaskop_def runEventdiff_def runUnexpect_def runServe_def
      runEbcdic_def runCbxxml2regex_def runRegex2json_def runTandum_def runMkgchat_def
      runTogchat_def runJq_def runYq_def runKubectl_def runDatabricks_def
      runMake_ignore_executor fun_eq_iff)

lemma dom_builtins:
  "dom (builtins env) = {''gitaskop'', ''eventdiff'', ''unexpect'', ''serve'', ''ebcdic'',
     ''cbxxml2regex'', ''regex2json'', ''tandum'', ''mkgchat'', ''togchat'', ''jq'', ''yq'',
     ''kubectl'', ''databricks'', ''make''}"
  by (simp add: builtins_def dom_map_of_conv_image_fst)

text \<open>
  C1. If the first element of a non-empty argument list is a name of the registry, the exec
  handler calls the registered builtin with the context and the remaining arguments, and
  its outcome is that call's outcome. It does not reach the executor of external
  processes: replacing the executor by any other function \<open>d\<close> (an executable of the
  same name on the search path, or none) leaves the outcome the same.
\<close>

theorem builtin_shadows_external:
  assumes "name \<in> dom (builtins env)"
  shows "\<exists>builtin. builtins env name = Some builtin
           \<and> createExecHandler env ctx (name # rest) s = builtin ctx rest s
           \<and> (\<forall>d. createExecHandler (env\<lparr>DefaultExecHandler := d\<rparr>) ctx (name # rest) s
                  = builtin ctx rest s)"
proof -
  from assms obtain builtin where b: "builtins env name = Some builtin" by auto
  have "createExecHandler env ctx (name # rest) s = builtin ctx rest s"
    using b by (simp add: createExecHandler_def)
  moreover have "createExecHandler (env\<lparr>DefaultExecHandler := d\<rparr>) ctx (name # rest) s
                  = builtin ctx rest s" for d
    using b by (simp add: createExecHandler_def builtins_ignore_executor)
  ultimately show ?thesis using b by blast
qed

theorem builtin_shadows_external_witness:
  "''jq'' \<in> dom (builtins (demo_env True [] []))
   \<and> (\<exists>builtin. builtins (demo_env True [] []) ''jq'' = Some builtin
        \<and> createExecHandler (demo_env True [] []) () [''jq'', ''.''] (proc demo_state)
            = builtin () [''.''] (proc demo_state)
        \<and> (\<forall>d. createExecHandler ((demo_env True [] [])\<lparr>DefaultExecHandler := d\<rparr>) ()
                   [''jq'', ''.''] (proc demo_state)
                 = builtin () [''.''] (proc demo_state)))"
proof -
  have h: "''jq'' \<in> dom (builtins (demo_env True [] []))"
    by (simp add: dom_builtins)
  show ?thesis
    using h builtin_shadows_external [OF h, of "()" "[''.'']" "proc demo_state"] by simp
qed

text \<open>
  C8. What the exec handler does for a command that is not a builtin: it hands the whole
  argument list to the library's executor, created with the number \<open>2 * 1024 * 1024\<close>,
  and returns the executor's outcome as it is. The handler itself neither counts nor
  limits output; whether a ceiling exists is decided by what the library does with the
  number it is given.
\<close>

theorem external_command_forwarded:
  assumes "name \<notin> dom (builtins env)"
  shows "createExecHandler env ctx (name # rest) s
           = DefaultExecHandler env 2097152 ctx (name # rest) s"
  using assms by (auto simp add: createExecHandler_def split: option.splits)

theorem external_command_forwarded_witness:
  "''seq'' \<notin> dom (builtins (demo_env True [] []))
   \<and> createExecHandler (demo_env True [] []) () [''seq'', ''1'', ''400000''] (proc demo_state)
       = DefaultExecHandler (demo_env True [] []) 2097152 () [''seq'', ''1'', ''400000'']
           (proc demo_state)"
proof -
  have h: "''seq'' \<notin> dom (builtins (demo_env True [] []))"
    by (simp add: dom_builtins)
  show ?thesis
    using h external_command_forwarded [OF h, of "()" "[''1'', ''400000'']" "proc demo_state"]
    by simp
qed

subsection \<open>The global argument vector\<close>

lemma runJq_restores: "runJq env ctx args s = Returns r s' \<Longrightarrow> os_Args s' = os_Args s"
  by (auto simp add: runJq_def Let_def split: outcome.splits if_splits)

lemma runYq_restores: "runYq env ctx args s = Returns r s' \<Longrightarrow> os_Args s' = os_Args s"
  by (auto simp add: runYq_def Let_def split: outcome.splits)

lemma runKubectl_restores: "runKubectl env ctx args s = Returns r s' \<Longrightarrow> os_Args s' = os_Args s"
  by (auto simp add: runKubectl_def Let_def split: outcome.splits)

lemma runDatabricks_restores:
  "runDatabricks env ctx args s = Returns r s' \<Longrightarrow> os_Args s' = os_Args s"
  by (auto simp add: runDatabricks_def Let_def split: outcome.splits)

text \<open>
  C10. When the handler registered for \<^verbatim>\<open>jq\<close>, \<^verbatim>\<open>yq\<close>, \<^verbatim>\<open>kubectl\<close> or
  \<^verbatim>\<open>databricks\<close> returns, with an error or without, \<^verbatim>\<open>os.Args\<close> has the value it had
  before the call, whatever the library did to it in between.
\<close>

theorem os_Args_restored:
  assumes "name \<in> {''jq'', ''yq'', ''kubectl'', ''databricks''}"
    and "builtins env name = Some handler"
    and "handler ctx args s = Returns r s'"
  shows "os_Args s' = os_Args s"
proof -
  from assms(1) consider "name = ''jq''" | "name = ''yq''" | "name = ''kubectl''"
    | "name = ''databricks''" by auto
  then show ?thesis
  proof cases
    case 1
    with assms(2) have "handler = runJq env" by (simp add: builtins_def)
    with assms(3) show ?thesis by (simp add: runJq_restores)
  next
    case 2
    with assms(2) have "handler = runYq env" by (simp add: builtins_def)
    with assms(3) show ?thesis by (simp add: runYq_restores)
  next
    case 3
    with assms(2) have "handler = runKubectl env" by (simp add: builtins_def)
    with assms(3) show ?thesis by (simp add: runKubectl_restores)
  next
    case 4
    with assms(2) have "handler = runDatabricks env" by (simp add: builtins_def)
    with assms(3) show ?thesis by (simp add: runDatabricks_restores)
  qed
qed

theorem os_Args_restored_witness:
  "''jq'' \<in> {''jq'', ''yq'', ''kubectl'', ''databricks''}
   \<and> builtins (demo_env True [] []) ''jq'' = Some (runJq (demo_env True [] []))
   \<and> runJq (demo_env True [] []) () [''.''] (proc demo_state)
       = Returns (Some (ErrorString ''jq exited with code 1''))
           \<lparr>os_Args = [''dimutils'', ''shell''], world = 0\<rparr>
   \<and> os_Args \<lparr>os_Args = [''dimutils'', ''shell''], world = 0::nat\<rparr> = os_Args (proc demo_state)"
proof -
  have h1: "''jq'' \<in> {''jq'', ''yq'', ''kubectl'', ''databricks''}" by simp
  have h2: "builtins (demo_env True [] []) ''jq'' = Some (runJq (demo_env True [] []))"
    by (simp add: builtins_def)
  have h3: "runJq (demo_env True [] []) () [''.''] (proc demo_state)
       = Returns (Some (ErrorString ''jq exited with code 1''))
           \<lparr>os_Args = [''dimutils'', ''shell''], world = 0\<rparr>"
    by (simp add: runJq_def demo_env_def demo_state_def show_int_def digits.simps)
  show ?thesis using h1 h2 h3 os_Args_restored [OF h1 h2 h3] by simp
qed

subsection \<open>The interactive loop\<close>

lemma scan_loop_append:
  "scan_loop env runner (xs @ ys) src s =
     (case scan_loop env runner xs src s of
        Exits c s1 \<Rightarrow> Exits c s1
      | Returns src1 s1 \<Rightarrow> scan_loop env runner ys src1 s1)"
  by (induction xs arbitrary: src s) (simp_all split: outcome.splits)

lemma runs_append: "runs (xs @ ys) = runs xs @ runs ys"
  by (induction xs rule: runs.induct) simp_all

lemma runs_secondary_prompts: "runs (replicate n (Stdout t)) = []"
  by (induction n) simp_all

lemma interactive_body_incomplete:
  assumes "Parse env (src @ line @ ''\<newline>'') [] = Inl err" and "IsIncomplete err"
  shows "interactive_body env runner line src s
           = Returns (src @ line @ ''\<newline>'') (s\<lparr>log := log s @ [Stdout ''> '']\<rparr>)"
  using assms by (simp add: interactive_body_def emit_def)

lemma interactive_body_invalid:
  assumes "Parse env (src @ line @ ''\<newline>'') [] = Inl err" and "\<not> IsIncomplete err"
  shows "interactive_body env runner line src s
           = Returns [] (s\<lparr>log := log s @
               [Stderr (''parse error: '' @ message err @ ''\<newline>''), Stdout prompt]\<rparr>)"
  using assms by (simp add: interactive_body_def emit_def)

lemma interactive_body_exit:
  assumes "Parse env (src @ line @ ''\<newline>'') [] = Inr prog"
    and "runner prog (proc s) = Returns (Some (ExitStatus n)) g"
  shows "interactive_body env runner line src s
           = Exits (uint n) (s\<lparr>log := log s @ [RunnerRun prog], proc := g\<rparr>)"
  using assms by (simp add: interactive_body_def runner_Run_def)

lemma interactive_body_runs_once:
  assumes "Parse env (src @ line @ ''\<newline>'') [] = Inr prog"
  shows "runs (log (outcome_state (interactive_body env runner line src s)))
           = runs (log s) @ [prog]"
  using assms
  by (simp add: interactive_body_def runner_Run_def emit_def runs_append
      split: outcome.splits option.splits prod.splits bool.splits)

lemma scan_loop_incomplete:
  assumes "\<forall>k < length ls. \<exists>err.
             Parse env (src @ joined (take (Suc k) ls)) [] = Inl err \<and> IsIncomplete err"
  shows "scan_loop env runner ls src s
           = Returns (src @ joined ls) (s\<lparr>log := log s @ replicate (length ls) (Stdout ''> '')\<rparr>)"
  using assms
proof (induction ls arbitrary: src s)
  case Nil
  then show ?case by simp
next
  case (Cons l ls)
  from Cons.prems have "\<exists>err. Parse env (src @ joined (take (Suc 0) (l # ls))) [] = Inl err
      \<and> IsIncomplete err" by blast
  then obtain err where e: "Parse env (src @ l @ ''\<newline>'') [] = Inl err" "IsIncomplete err"
    by auto
  have rest: "\<forall>k < length ls. \<exists>err.
      Parse env ((src @ l @ ''\<newline>'') @ joined (take (Suc k) ls)) [] = Inl err \<and> IsIncomplete err"
  proof (intro allI impI)
    fix k assume "k < length ls"
    then have "Suc k < length (l # ls)" by simp
    with Cons.prems have "\<exists>err. Parse env (src @ joined (take (Suc (Suc k)) (l # ls))) [] = Inl err
      \<and> IsIncomplete err" by blast
    then show "\<exists>err. Parse env ((src @ l @ ''\<newline>'') @ joined (take (Suc k) ls)) [] = Inl err
      \<and> IsIncomplete err" by simp
  qed
  show ?case
    using Cons.IH [OF rest] interactive_body_incomplete [OF e]
    by (simp add: replicate_app_Cons_same)
qed

lemma interactive_body_complete:
  assumes "Parse env (src @ line @ ''\<newline>'') [] = Inr prog"
  shows "interactive_body env runner line src s
     = (case runner prog (proc s) of
          Exits c g \<Rightarrow> Exits c (s\<lparr>log := log s @ [RunnerRun prog], proc := g\<rparr>)
        | Returns None g \<Rightarrow>
            Returns [] (s\<lparr>log := log s @ [RunnerRun prog, Stdout prompt], proc := g\<rparr>)
        | Returns (Some err) g \<Rightarrow>
            (case IsExitStatus err of
               (st, True) \<Rightarrow> Exits (uint st) (s\<lparr>log := log s @ [RunnerRun prog], proc := g\<rparr>)
             | (st, False) \<Rightarrow>
                 Returns [] (s\<lparr>log := log s @ [RunnerRun prog,
                     Stderr (''runtime error: '' @ Error err @ ''\<newline>''), Stdout prompt],
                   proc := g\<rparr>)))"
proof (cases "runner prog (proc s)")
  case (Exits c g)
  then show ?thesis using assms by (simp add: interactive_body_def runner_Run_def)
next
  case (Returns r g)
  show ?thesis
  proof (cases r)
    case None
    then show ?thesis using assms Returns
      by (simp add: interactive_body_def runner_Run_def emit_def)
  next
    case (Some err)
    then show ?thesis using assms Returns
      by (cases err) (simp_all add: interactive_body_def runner_Run_def emit_def)
  qed
qed

lemma demo_New:
  "interp_New (demo_env tty lines input) (createExecHandler (demo_env tty lines input))
     = Inr (createExecHandler (demo_env tty lines input) ())"
  by (simp add: demo_env_def)

lemma demo_exit7:
  "createExecHandler (demo_env tty lines input) () [''ebcdic'', ''exit7''] g
     = Returns (Some (ExitStatus 7)) g"
  by (simp add: createExecHandler_def builtins_def runEbcdic_def demo_env_def)

lemma demo_fail:
  "createExecHandler (demo_env tty lines input) () [''ebcdic'', ''fail''] g
     = Returns (Some (ErrorString ''boom'')) g"
  by (simp add: createExecHandler_def builtins_def runEbcdic_def demo_env_def)

lemma demo_jq:
  "createExecHandler (demo_env tty lines input) () [''jq'', ''.''] g
     = Returns (Some (ErrorString ''jq exited with code 1'')) g"
  by (simp add: createExecHandler_def builtins_def runJq_def demo_env_def show_int_def
      digits.simps)

lemma demo_Parse_env: "Parse (demo_env tty lines input) = demo_Parse"
  by (simp add: demo_env_def)

lemma demo_fields:
  "IsTerminal (demo_env tty lines input) = tty"
  "stdin_lines (demo_env tty lines input) = lines"
  "stdin_ReadAll (demo_env tty lines input) = Inr input"
  "os_Open (demo_env tty lines input) ''exit7.sh'' = Inr ''ebcdic exit7\<newline>''"
  "os_Open (demo_env tty lines input) ''bad.sh'' = Inr '')''"
  by (simp_all add: demo_env_def)

lemma demo_pre_failure:
  "scan_loop (demo_env tty lines input) (createExecHandler (demo_env tty lines input) ())
     [''ebcdic fail''] [] (emit (Stdout prompt) demo_state)
   = Returns []
       (demo_state\<lparr>log := [Stdout ''dim > '', RunnerRun [''ebcdic'', ''fail''],
          Stderr ''runtime error: boom\<newline>'', Stdout ''dim > '']\<rparr>)"
  by (simp add: interactive_body_def runner_Run_def emit_def prompt_def demo_Parse_env
      demo_Parse_def demo_fail demo_state_def)

lemma demo_tail_failure:
  "scan_loop (demo_env tty lines input) (createExecHandler (demo_env tty lines input) ())
     [''ebcdic fail''] [] st
   = Returns [] (st\<lparr>log := log st @ [RunnerRun [''ebcdic'', ''fail''],
        Stderr ''runtime error: boom\<newline>'', Stdout ''dim > ''], proc := proc st\<rparr>)"
  by (simp add: interactive_body_def runner_Run_def emit_def prompt_def demo_Parse_env
      demo_Parse_def demo_fail)

lemma demo_no_scan_err: "stdin_scan_err (demo_env tty lines input) = None"
  by (simp add: demo_env_def)

subsection \<open>Entry point, exit codes and failures\<close>

lemma goshCmd_Run_exits:
  "Run env args s = Exits c s' \<Longrightarrow> goshCmd_Run env args s = Exits c s'"
  by (simp add: goshCmd_Run_def)

lemma goshCmd_Run_fails:
  "Run env args s = Returns (Some err) s'
     \<Longrightarrow> goshCmd_Run env args s = Exits 1 (s'\<lparr>log := log s' @ [Stderr (''Error: '' @ Error err @ ''\<newline>'')]\<rparr>)"
  by (simp add: goshCmd_Run_def emit_def)

lemma runInteractive_exit:
  assumes "stdin_lines env = pre @ line # rest"
    and "scan_loop env runner pre [] (emit (Stdout prompt) s0) = Returns src s"
    and "Parse env (src @ line @ ''\<newline>'') [] = Inr prog"
    and "runner prog (proc s) = Returns (Some (ExitStatus n)) g"
  shows "runInteractive env runner s0
           = Exits (uint n) (s\<lparr>log := log s @ [RunnerRun prog], proc := g\<rparr>)"
  using assms interactive_body_exit [of env src line prog runner s n g]
  by (simp add: runInteractive_def scan_loop_append)

lemma runPipedScript_exit:
  assumes "stdin_ReadAll env = Inr input" and "input \<noteq> []"
    and "Parse env input [] = Inr prog"
    and "runner prog (proc s) = Returns (Some (ExitStatus n)) g"
  shows "runPipedScript env runner s
           = Exits (uint n) (s\<lparr>log := log s @ [RunnerRun prog], proc := g\<rparr>)"
  using assms by (simp add: runPipedScript_def runner_Run_def)

lemma runCommand_exit:
  assumes "Parse env command [] = Inr prog"
    and "runner prog (proc s) = Returns (Some (ExitStatus n)) g"
  shows "runCommand env runner command s
           = Exits (uint n) (s\<lparr>log := log s @ [RunnerRun prog], proc := g\<rparr>)"
  using assms by (simp add: runCommand_def runner_Run_def)

lemma runScript_exit:
  assumes "os_Open env filename = Inr contents"
    and "Parse env contents filename = Inr prog"
    and "runner prog (proc s) = Returns (Some (ExitStatus n)) g"
  shows "runScript env runner filename s
           = Exits (uint n) (s\<lparr>log := log s @ [FileOpened filename, RunnerRun prog], proc := g\<rparr>)"
  using assms by (simp add: runScript_def runner_Run_def emit_def)

lemma Run_no_args:
  assumes "interp_New env (createExecHandler env) = Inr runner"
  shows "Run env [] s = (if IsTerminal env then runInteractive env runner s
                         else runPipedScript env runner s)"
  using assms by (simp add: Run_def)

lemma Run_command_string:
  assumes "interp_New env (createExecHandler env) = Inr runner"
  shows "Run env [''-c'', command] s = runCommand env runner command s"
  using assms by (simp add: Run_def)

lemma Run_script_file:
  assumes "interp_New env (createExecHandler env) = Inr runner"
    and "args \<noteq> []" and "\<not> (length args = 2 \<and> args ! 0 = ''-c'')"
  shows "Run env args s = runScript env runner (args ! 0) s"
  using assms by (auto simp add: Run_def)

lemma runInteractive_resume:
  assumes "stdin_lines env = before @ todo"
    and "scan_loop env runner before [] (emit (Stdout prompt) s0) = Returns src s"
  shows "runInteractive env runner s0 = session_rest env runner todo src s"
  using assms by (simp add: runInteractive_def scan_loop_append)

lemma Run_interactive_resume:
  assumes "interp_New env (createExecHandler env) = Inr runner" and "IsTerminal env"
    and "stdin_lines env = before @ todo"
    and "scan_loop env runner before [] (emit (Stdout prompt) s0) = Returns src s"
  shows "Run env [] s0 = session_rest env runner todo src s"
  using assms by (simp add: Run_no_args runInteractive_resume)

lemma session_rest_step:
  "session_rest env runner (line # rest) src s =
     (case interactive_body env runner line src s of
        Exits c s1 \<Rightarrow> Exits c s1
      | Returns src1 s1 \<Rightarrow> session_rest env runner rest src1 s1)"
  by (simp split: outcome.splits)

text \<open>
  C4. Interactive mode, a construct typed over several lines. Let the session have read the
  lines \<open>pre\<close> and stand at the buffer \<open>src\<close> in the state \<open>s\<close>; let every line of
  \<open>ls\<close>, appended to what came before, leave the buffer incomplete, and let the next line
  \<open>line\<close> complete it to the program \<open>prog\<close>. Then
  \<^item> after the lines \<open>ls\<close> the buffer holds them all, one secondary prompt was printed per
    line, and nothing has run: the process state is still that of \<open>s\<close>;
  \<^item> the whole session \<^verbatim>\<open>Run\<close> on no arguments is: the runner applied to \<open>prog\<close> once,
    in that untouched process state, and then, according to its result, the exit of the
    process or the rest of the session on the remaining lines with an empty buffer, in the
    process state the run left;
  \<^item> the programs run up to and including \<open>line\<close> are those run before, and \<open>prog\<close>, once.
\<close>

theorem incomplete_input_continues:
  assumes "interp_New env (createExecHandler env) = Inr runner" and "IsTerminal env"
    and "stdin_lines env = pre @ ls @ line # rest"
    and "scan_loop env runner pre [] (emit (Stdout prompt) s0) = Returns src s"
    and "\<forall>k < length ls. \<exists>err.
           Parse env (src @ joined (take (Suc k) ls)) [] = Inl err \<and> IsIncomplete err"
    and "Parse env (src @ joined ls @ line @ ''\<newline>'') [] = Inr prog"
  shows
    "scan_loop env runner (pre @ ls) [] (emit (Stdout prompt) s0)
       = Returns (src @ joined ls) (s\<lparr>log := log s @ replicate (length ls) (Stdout ''> '')\<rparr>)
     \<and> Run env [] s0
       = (let waiting = log s @ replicate (length ls) (Stdout ''> '') in
          case runner prog (proc s) of
            Exits c g \<Rightarrow> Exits c (s\<lparr>log := waiting @ [RunnerRun prog], proc := g\<rparr>)
          | Returns None g \<Rightarrow>
              session_rest env runner rest []
                (s\<lparr>log := waiting @ [RunnerRun prog, Stdout prompt], proc := g\<rparr>)
          | Returns (Some err) g \<Rightarrow>
              (case IsExitStatus err of
                 (st, True) \<Rightarrow> Exits (uint st) (s\<lparr>log := waiting @ [RunnerRun prog], proc := g\<rparr>)
               | (st, False) \<Rightarrow>
                   session_rest env runner rest []
                     (s\<lparr>log := waiting @ [RunnerRun prog,
                          Stderr (''runtime error: '' @ Error err @ ''\<newline>''), Stdout prompt],
                        proc := g\<rparr>)))
     \<and> runs (log (outcome_state
           (scan_loop env runner (pre @ ls @ [line]) [] (emit (Stdout prompt) s0))))
         = runs (log s) @ [prog]"
proof -
  let ?s1 = "s\<lparr>log := log s @ replicate (length ls) (Stdout ''> '')\<rparr>"
  have a: "scan_loop env runner (pre @ ls) [] (emit (Stdout prompt) s0)
             = Returns (src @ joined ls) ?s1"
    using assms(4) scan_loop_incomplete [OF assms(5), of runner s]
    by (simp add: scan_loop_append)
  have p: "Parse env ((src @ joined ls) @ line @ ''\<newline>'') [] = Inr prog"
    using assms(6) by simp
  have l: "stdin_lines env = (pre @ ls) @ line # rest"
    using assms(3) by simp
  have r: "Run env [] s0
      = (case interactive_body env runner line (src @ joined ls) ?s1 of
           Exits c s1 \<Rightarrow> Exits c s1
         | Returns src1 s1 \<Rightarrow> session_rest env runner rest src1 s1)"
    using Run_interactive_resume [OF assms(1) assms(2) l a]
    by (simp only: session_rest_step)
  have b: "Run env [] s0
       = (let waiting = log s @ replicate (length ls) (Stdout ''> '') in
          case runner prog (proc s) of
            Exits c g \<Rightarrow> Exits c (s\<lparr>log := waiting @ [RunnerRun prog], proc := g\<rparr>)
          | Returns None g \<Rightarrow>
              session_rest env runner rest []
                (s\<lparr>log := waiting @ [RunnerRun prog, Stdout prompt], proc := g\<rparr>)
          | Returns (Some err) g \<Rightarrow>
              (case IsExitStatus err of
                 (st, True) \<Rightarrow> Exits (uint st) (s\<lparr>log := waiting @ [RunnerRun prog], proc := g\<rparr>)
               | (st, False) \<Rightarrow>
                   session_rest env runner rest []
                     (s\<lparr>log := waiting @ [RunnerRun prog,
                          Stderr (''runtime error: '' @ Error err @ ''\<newline>''), Stdout prompt],
                        proc := g\<rparr>)))"
  proof (cases "runner prog (proc s)")
    case (Exits c g)
    then show ?thesis
      by (simp add: r interactive_body_complete [OF p] Let_def del: scan_loop.simps)
  next
    case (Returns res g)
    show ?thesis
    proof (cases res)
      case None
      then show ?thesis using Returns
        by (simp add: r interactive_body_complete [OF p] Let_def del: scan_loop.simps)
    next
      case (Some err)
      then show ?thesis using Returns
        by (cases err)
           (simp_all add: r interactive_body_complete [OF p] Let_def del: scan_loop.simps)
    qed
  qed
  have c: "outcome_state (scan_loop env runner (pre @ ls @ [line]) [] (emit (Stdout prompt) s0))
             = outcome_state (interactive_body env runner line (src @ joined ls) ?s1)"
    using a scan_loop_append [of env runner "pre @ ls" "[line]" "[]" "emit (Stdout prompt) s0"]
    by (simp split: outcome.splits)
  have d: "runs (log (outcome_state
           (scan_loop env runner (pre @ ls @ [line]) [] (emit (Stdout prompt) s0))))
         = runs (log s) @ [prog]"
    using interactive_body_runs_once [OF p, of runner ?s1]
    by (simp add: c runs_append runs_secondary_prompts)
  show ?thesis using a b d by blast
qed

theorem incomplete_input_continues_witness:
  "Parse (demo_env True [''{'', ''jq .'', ''}'', ''ebcdic fail''] []) ''{\<newline>'' []
     = Inl (ParseError True ''reached EOF without matching { with }'')
   \<and> Parse (demo_env True [''{'', ''jq .'', ''}'', ''ebcdic fail''] []) ''{\<newline>jq .\<newline>'' []
     = Inl (ParseError True ''reached EOF without matching { with }'')
   \<and> Parse (demo_env True [''{'', ''jq .'', ''}'', ''ebcdic fail''] []) ''{\<newline>jq .\<newline>}\<newline>'' []
     = Inr [''jq'', ''.'']
   \<and> scan_loop (demo_env True [''{'', ''jq .'', ''}'', ''ebcdic fail''] [])
        (createExecHandler (demo_env True [''{'', ''jq .'', ''}'', ''ebcdic fail''] []) ())
        [''{'', ''jq .''] [] (emit (Stdout prompt) demo_state)
     = Returns ''{\<newline>jq .\<newline>''
         (demo_state\<lparr>log := [Stdout ''dim > '', Stdout ''> '', Stdout ''> '']\<rparr>)
   \<and> Run (demo_env True [''{'', ''jq .'', ''}'', ''ebcdic fail''] []) [] demo_state
     = Returns None
         (demo_state\<lparr>log := [Stdout ''dim > '', Stdout ''> '', Stdout ''> '',
            RunnerRun [''jq'', ''.''], Stderr ''runtime error: jq exited with code 1\<newline>'',
            Stdout ''dim > '', RunnerRun [''ebcdic'', ''fail''],
            Stderr ''runtime error: boom\<newline>'', Stdout ''dim > '']\<rparr>)"
proof -
  let ?E = "demo_env True [''{'', ''jq .'', ''}'', ''ebcdic fail''] []"
  let ?s0 = "emit (Stdout prompt) demo_state"
  have h2: "IsTerminal ?E" by (simp add: demo_fields)
  have h3: "stdin_lines ?E = [] @ [''{'', ''jq .''] @ ''}'' # [''ebcdic fail'']"
    by (simp add: demo_fields)
  have h4: "scan_loop ?E (createExecHandler ?E ()) [] [] ?s0 = Returns [] ?s0" by simp
  have h5: "\<forall>k < length [''{'', ''jq .'']. \<exists>err.
       Parse ?E ([] @ joined (take (Suc k) [''{'', ''jq .''])) [] = Inl err \<and> IsIncomplete err"
    by (simp add: All_less_Suc demo_Parse_env demo_Parse_def IsIncomplete_def)
  have h6: "Parse ?E ([] @ joined [''{'', ''jq .''] @ ''}'' @ ''\<newline>'') [] = Inr [''jq'', ''.'']"
    by (simp add: demo_Parse_env demo_Parse_def)
  have tail: "scan_loop ?E (createExecHandler ?E ()) [''ebcdic fail''] [] st
      = Returns [] (st\<lparr>log := log st @ [RunnerRun [''ebcdic'', ''fail''],
            Stderr ''runtime error: boom\<newline>'', Stdout ''dim > ''], proc := proc st\<rparr>)" for st
    by (simp add: interactive_body_def runner_Run_def emit_def prompt_def demo_Parse_env
        demo_Parse_def demo_fail)
  have noerr: "stdin_scan_err ?E = None" by (simp add: demo_env_def)
  show ?thesis
    using incomplete_input_continues [OF demo_New h2 h3 h4 h5 h6]
    by (simp add: demo_Parse_env demo_Parse_def demo_jq tail noerr Let_def emit_def prompt_def
        demo_state_def del: scan_loop.simps)
qed

text \<open>
  C5. Once the interpreter is created, \<^verbatim>\<open>Run\<close> behaves as the mode that the
  specification's rule selects from the argument list and the terminal state of standard
  input; the rule is a total function: it gives a mode for every argument list.
\<close>

theorem mode_selection:
  assumes "interp_New env (createExecHandler env) = Inr runner"
  shows "Run env args s = run_mode env runner (spec_select_mode args (IsTerminal env)) s"
proof (cases args)
  case Nil
  then show ?thesis using assms by (simp add: Run_def)
next
  case (Cons a rest)
  note outer = Cons
  show ?thesis
  proof (cases rest)
    case Nil
    then show ?thesis using assms outer by (simp add: Run_def)
  next
    case (Cons b rest2)
    then show ?thesis using assms outer by (cases rest2) (simp_all add: Run_def)
  qed
qed

theorem mode_selection_witness:
  "interp_New (demo_env False [] []) (createExecHandler (demo_env False [] []))
     = Inr (createExecHandler (demo_env False [] []) ())
   \<and> Run (demo_env False [] []) [''-c'', ''ebcdic fail''] demo_state
       = runCommand (demo_env False [] []) (createExecHandler (demo_env False [] []) ())
           ''ebcdic fail'' demo_state
   \<and> Run (demo_env False [] []) [] demo_state
       = runPipedScript (demo_env False [] []) (createExecHandler (demo_env False [] []) ())
           demo_state"
  using mode_selection [OF demo_New, of False "[]" "[]" "[''-c'', ''ebcdic fail'']" demo_state]
    mode_selection [OF demo_New, of False "[]" "[]" "[]" demo_state]
  by (simp add: demo_New demo_fields)

text \<open>
  C2. In each of the four modes, when the runner returns an exit status \<open>n\<close> for the
  parsed program, the process exits with code \<open>n\<close>: in interactive mode at whichever
  line of the input the loop has reached (after the lines \<open>pre\<close>), in piped mode on a
  non-empty input, in command-string mode, and in file mode once the file is open.
\<close>

theorem explicit_termination_exit_code:
  assumes "interp_New env (createExecHandler env) = Inr runner"
    and "runner prog (proc s) = Returns (Some (ExitStatus n)) g"
  shows
    "(IsTerminal env \<longrightarrow> stdin_lines env = pre @ line # rest
        \<longrightarrow> scan_loop env runner pre [] (emit (Stdout prompt) s0) = Returns src s
        \<longrightarrow> Parse env (src @ line @ ''\<newline>'') [] = Inr prog
        \<longrightarrow> goshCmd_Run env [] s0
              = Exits (uint n) (s\<lparr>log := log s @ [RunnerRun prog], proc := g\<rparr>))
     \<and> (\<not> IsTerminal env \<longrightarrow> stdin_ReadAll env = Inr input \<longrightarrow> input \<noteq> []
        \<longrightarrow> Parse env input [] = Inr prog
        \<longrightarrow> goshCmd_Run env [] s
              = Exits (uint n) (s\<lparr>log := log s @ [RunnerRun prog], proc := g\<rparr>))
     \<and> (Parse env command [] = Inr prog
        \<longrightarrow> goshCmd_Run env [''-c'', command] s
              = Exits (uint n) (s\<lparr>log := log s @ [RunnerRun prog], proc := g\<rparr>))
     \<and> (args \<noteq> [] \<longrightarrow> \<not> (length args = 2 \<and> args ! 0 = ''-c'')
        \<longrightarrow> os_Open env (args ! 0) = Inr contents
        \<longrightarrow> Parse env contents (args ! 0) = Inr prog
        \<longrightarrow> goshCmd_Run env args s
              = Exits (uint n)
                  (s\<lparr>log := log s @ [FileOpened (args ! 0), RunnerRun prog], proc := g\<rparr>))"
proof (intro conjI impI)
  assume "IsTerminal env" "stdin_lines env = pre @ line # rest"
    "scan_loop env runner pre [] (emit (Stdout prompt) s0) = Returns src s"
    "Parse env (src @ line @ ''\<newline>'') [] = Inr prog"
  then show "goshCmd_Run env [] s0
      = Exits (uint n) (s\<lparr>log := log s @ [RunnerRun prog], proc := g\<rparr>)"
    using assms by (simp add: goshCmd_Run_exits Run_no_args runInteractive_exit)
next
  assume "\<not> IsTerminal env" "stdin_ReadAll env = Inr input" "input \<noteq> []"
    "Parse env input [] = Inr prog"
  then show "goshCmd_Run env [] s
      = Exits (uint n) (s\<lparr>log := log s @ [RunnerRun prog], proc := g\<rparr>)"
    using assms by (simp add: goshCmd_Run_exits Run_no_args runPipedScript_exit)
next
  assume "Parse env command [] = Inr prog"
  then show "goshCmd_Run env [''-c'', command] s
      = Exits (uint n) (s\<lparr>log := log s @ [RunnerRun prog], proc := g\<rparr>)"
    using assms by (simp add: goshCmd_Run_exits Run_command_string runCommand_exit)
next
  assume "args \<noteq> []" "\<not> (length args = 2 \<and> args ! 0 = ''-c'')"
    "os_Open env (args ! 0) = Inr contents" "Parse env contents (args ! 0) = Inr prog"
  then show "goshCmd_Run env args s
      = Exits (uint n) (s\<lparr>log := log s @ [FileOpened (args ! 0), RunnerRun prog], proc := g\<rparr>)"
    using assms by (simp add: goshCmd_Run_exits Run_script_file runScript_exit)
qed

theorem explicit_termination_exit_code_witness:
  "goshCmd_Run (demo_env True [''ebcdic fail'', ''ebcdic exit7'', ''never''] []) [] demo_state
     = Exits 7 (demo_state\<lparr>log := [Stdout ''dim > '', RunnerRun [''ebcdic'', ''fail''],
          Stderr ''runtime error: boom\<newline>'', Stdout ''dim > '',
          RunnerRun [''ebcdic'', ''exit7'']]\<rparr>)
   \<and> goshCmd_Run (demo_env False [] ''ebcdic exit7'') [] demo_state
     = Exits 7 (demo_state\<lparr>log := [RunnerRun [''ebcdic'', ''exit7'']]\<rparr>)
   \<and> goshCmd_Run (demo_env True [] []) [''-c'', ''ebcdic exit7''] demo_state
     = Exits 7 (demo_state\<lparr>log := [RunnerRun [''ebcdic'', ''exit7'']]\<rparr>)
   \<and> goshCmd_Run (demo_env True [] []) [''exit7.sh''] demo_state
     = Exits 7 (demo_state\<lparr>log := [FileOpened ''exit7.sh'', RunnerRun [''ebcdic'', ''exit7'']]\<rparr>)"
proof -
  let ?after = "demo_state\<lparr>log := [Stdout ''dim > '', RunnerRun [''ebcdic'', ''fail''],
          Stderr ''runtime error: boom\<newline>'', Stdout ''dim > '']\<rparr>"
  let ?E1 = "demo_env True [''ebcdic fail'', ''ebcdic exit7'', ''never''] []"
  let ?E2 = "demo_env False [] ''ebcdic exit7''"
  let ?E3 = "demo_env True [] []"
  have interactive:
    "goshCmd_Run ?E1 [] demo_state
       = Exits 7 (?after\<lparr>log := log ?after @ [RunnerRun [''ebcdic'', ''exit7'']],
                          proc := proc ?after\<rparr>)"
    using explicit_termination_exit_code [
        where env = ?E1 and runner = "createExecHandler ?E1 ()"
          and prog = "[''ebcdic'', ''exit7'']" and n = 7 and g = "proc ?after"
          and pre = "[''ebcdic fail'']" and line = "''ebcdic exit7''" and rest = "[''never'']"
          and ?s0.0 = demo_state and src = "[]" and s = ?after,
        THEN conjunct1]
    by (simp add: demo_New demo_exit7 demo_fields demo_pre_failure demo_Parse_env demo_Parse_def
        del: scan_loop.simps)
  have piped:
    "goshCmd_Run ?E2 [] demo_state
       = Exits 7 (demo_state\<lparr>log := log demo_state @ [RunnerRun [''ebcdic'', ''exit7'']],
                             proc := proc demo_state\<rparr>)"
    using explicit_termination_exit_code [
        where env = ?E2 and runner = "createExecHandler ?E2 ()"
          and prog = "[''ebcdic'', ''exit7'']" and n = 7 and g = "proc demo_state"
          and input = "''ebcdic exit7''" and s = demo_state,
        THEN conjunct2, THEN conjunct1]
    by (simp add: demo_New demo_exit7 demo_fields demo_Parse_env demo_Parse_def)
  have command:
    "goshCmd_Run ?E3 [''-c'', ''ebcdic exit7''] demo_state
       = Exits 7 (demo_state\<lparr>log := log demo_state @ [RunnerRun [''ebcdic'', ''exit7'']],
                             proc := proc demo_state\<rparr>)"
    using explicit_termination_exit_code [
        where env = ?E3 and runner = "createExecHandler ?E3 ()"
          and prog = "[''ebcdic'', ''exit7'']" and n = 7 and g = "proc demo_state"
          and command = "''ebcdic exit7''" and s = demo_state,
        THEN conjunct2, THEN conjunct2, THEN conjunct1]
    by (simp add: demo_New demo_exit7 demo_Parse_env demo_Parse_def)
  have script:
    "goshCmd_Run ?E3 [''exit7.sh''] demo_state
       = Exits 7 (demo_state\<lparr>log := log demo_state @
                    [FileOpened ''exit7.sh'', RunnerRun [''ebcdic'', ''exit7'']],
                  proc := proc demo_state\<rparr>)"
    using explicit_termination_exit_code [
        where env = ?E3 and runner = "createExecHandler ?E3 ()"
          and prog = "[''ebcdic'', ''exit7'']" and n = 7 and g = "proc demo_state"
          and args = "[''exit7.sh'']" and contents = "''ebcdic exit7\<newline>''"
          and s = demo_state,
        THEN conjunct2, THEN conjunct2, THEN conjunct2]
    by (simp add: demo_New demo_exit7 demo_fields demo_Parse_env demo_Parse_def)
  show ?thesis
    using interactive piped command script by (simp add: demo_state_def)
qed




text \<open>
  C6. A parse failure that is not classified as incomplete. In interactive mode, with the
  session standing at the buffer \<open>src\<close> after the lines \<open>pre\<close>, the whole session
  \<^verbatim>\<open>Run\<close> on no arguments is: the error printed to standard error, the prompt printed,
  and then the rest of the session on the remaining lines with an empty buffer. In piped,
  command-string and file mode a parse failure (of either kind) is returned as an error,
  nothing is run, and the calling command prints the error and exits with code 1.
\<close>

theorem parse_invalid_handling:
  "(interp_New env (createExecHandler env) = Inr runner \<longrightarrow> IsTerminal env
      \<longrightarrow> stdin_lines env = pre @ line # rest
      \<longrightarrow> scan_loop env runner pre [] (emit (Stdout prompt) s0) = Returns src s
      \<longrightarrow> Parse env (src @ line @ ''\<newline>'') [] = Inl err \<longrightarrow> \<not> IsIncomplete err
      \<longrightarrow> Run env [] s0
            = session_rest env runner rest []
                (s\<lparr>log := log s @
                   [Stderr (''parse error: '' @ message err @ ''\<newline>''), Stdout prompt]\<rparr>))
   \<and> (interp_New env (createExecHandler env) = Inr runner \<longrightarrow>
        (\<not> IsTerminal env \<longrightarrow> stdin_ReadAll env = Inr input \<longrightarrow> input \<noteq> []
           \<longrightarrow> Parse env input [] = Inl err
           \<longrightarrow> goshCmd_Run env [] s
                 = Exits 1 (s\<lparr>log := log s @
                     [Stderr (''Error: parse error: '' @ message err @ ''\<newline>'')]\<rparr>))
        \<and> (Parse env command [] = Inl err
           \<longrightarrow> goshCmd_Run env [''-c'', command] s
                 = Exits 1 (s\<lparr>log := log s @
                     [Stderr (''Error: parse error: '' @ message err @ ''\<newline>'')]\<rparr>))
        \<and> (args \<noteq> [] \<longrightarrow> \<not> (length args = 2 \<and> args ! 0 = ''-c'')
           \<longrightarrow> os_Open env (args ! 0) = Inr contents
           \<longrightarrow> Parse env contents (args ! 0) = Inl err
           \<longrightarrow> goshCmd_Run env args s
                 = Exits 1 (s\<lparr>log := log s @
                     [FileOpened (args ! 0), FileClosed (args ! 0),
                      Stderr (''Error: parse error: '' @ message err @ ''\<newline>'')]\<rparr>)))"
proof (intro conjI impI)
  assume n: "interp_New env (createExecHandler env) = Inr runner" and t: "IsTerminal env"
    and l: "stdin_lines env = pre @ line # rest"
    and p: "scan_loop env runner pre [] (emit (Stdout prompt) s0) = Returns src s"
    and e: "Parse env (src @ line @ ''\<newline>'') [] = Inl err" "\<not> IsIncomplete err"
  have "Run env [] s0 = session_rest env runner (line # rest) src s"
    by (rule Run_interactive_resume [OF n t l p])
  then show "Run env [] s0
      = session_rest env runner rest []
          (s\<lparr>log := log s @
             [Stderr (''parse error: '' @ message err @ ''\<newline>''), Stdout prompt]\<rparr>)"
    by (simp add: interactive_body_invalid [OF e] del: scan_loop.simps add: scan_loop.simps(2))
next
  assume "interp_New env (createExecHandler env) = Inr runner" "\<not> IsTerminal env"
    "stdin_ReadAll env = Inr input" "input \<noteq> []" "Parse env input [] = Inl err"
  then have "Run env [] s = Returns (Some (ErrorString (''parse error: '' @ message err))) s"
    by (simp add: Run_no_args runPipedScript_def)
  then show "goshCmd_Run env [] s
      = Exits 1 (s\<lparr>log := log s @
          [Stderr (''Error: parse error: '' @ message err @ ''\<newline>'')]\<rparr>)"
    by (simp add: goshCmd_Run_fails)
next
  assume "interp_New env (createExecHandler env) = Inr runner"
    "Parse env command [] = Inl err"
  then have "Run env [''-c'', command] s
      = Returns (Some (ErrorString (''parse error: '' @ message err))) s"
    by (simp add: Run_command_string runCommand_def)
  then show "goshCmd_Run env [''-c'', command] s
      = Exits 1 (s\<lparr>log := log s @
          [Stderr (''Error: parse error: '' @ message err @ ''\<newline>'')]\<rparr>)"
    by (simp add: goshCmd_Run_fails)
next
  assume "interp_New env (createExecHandler env) = Inr runner"
    "args \<noteq> []" "\<not> (length args = 2 \<and> args ! 0 = ''-c'')"
    "os_Open env (args ! 0) = Inr contents" "Parse env contents (args ! 0) = Inl err"
  then have "Run env args s
      = Returns (Some (ErrorString (''parse error: '' @ message err)))
          (s\<lparr>log := log s @ [FileOpened (args ! 0), FileClosed (args ! 0)]\<rparr>)"
    by (simp add: Run_script_file runScript_def emit_def)
  then show "goshCmd_Run env args s
      = Exits 1 (s\<lparr>log := log s @
          [FileOpened (args ! 0), FileClosed (args ! 0),
           Stderr (''Error: parse error: '' @ message err @ ''\<newline>'')]\<rparr>)"
    by (simp add: goshCmd_Run_fails)
qed

theorem parse_invalid_handling_witness:
  "Run (demo_env True [''oops'', ''ebcdic fail''] []) [] demo_state
     = Returns None
         (demo_state\<lparr>log := [Stdout ''dim > '',
            Stderr ''parse error: not a valid command\<newline>'', Stdout ''dim > '',
            RunnerRun [''ebcdic'', ''fail''], Stderr ''runtime error: boom\<newline>'',
            Stdout ''dim > '']\<rparr>)
   \<and> goshCmd_Run (demo_env False [] '')'') [] demo_state
     = Exits 1 (demo_state\<lparr>log :=
         [Stderr ''Error: parse error: not a valid command\<newline>'']\<rparr>)
   \<and> goshCmd_Run (demo_env True [] []) [''-c'', '')''] demo_state
     = Exits 1 (demo_state\<lparr>log :=
         [Stderr ''Error: parse error: not a valid command\<newline>'']\<rparr>)
   \<and> goshCmd_Run (demo_env True [] []) [''bad.sh''] demo_state
     = Exits 1 (demo_state\<lparr>log := [FileOpened ''bad.sh'', FileClosed ''bad.sh'',
         Stderr ''Error: parse error: not a valid command\<newline>'']\<rparr>)"
proof -
  let ?E1 = "demo_env True [''oops'', ''ebcdic fail''] []"
  let ?E2 = "demo_env False [] '')''"
  let ?E3 = "demo_env True [] []"
  let ?s0 = "emit (Stdout prompt) demo_state"
  let ?err = "ParseError False ''not a valid command''"
  have interactive:
    "Run ?E1 [] demo_state
       = session_rest ?E1 (createExecHandler ?E1 ()) [''ebcdic fail''] []
           (?s0\<lparr>log := log ?s0 @
              [Stderr (''parse error: '' @ message ?err @ ''\<newline>''), Stdout prompt]\<rparr>)"
    using parse_invalid_handling [
        where env = ?E1 and runner = "createExecHandler ?E1 ()" and err = ?err
          and s = ?s0 and ?s0.0 = demo_state and pre = "[]" and src = "[]"
          and line = "''oops''" and rest = "[''ebcdic fail'']",
        THEN conjunct1]
    by (simp add: demo_New demo_fields demo_Parse_env demo_Parse_def IsIncomplete_def
        del: scan_loop.simps(2))
  have piped:
    "goshCmd_Run ?E2 [] demo_state
       = Exits 1 (demo_state\<lparr>log := log demo_state @
           [Stderr (''Error: parse error: '' @ message ?err @ ''\<newline>'')]\<rparr>)"
    using parse_invalid_handling [
        where env = ?E2 and runner = "createExecHandler ?E2 ()" and err = ?err
          and s = demo_state and input = "'')''",
        THEN conjunct2, THEN mp, THEN conjunct1]
    by (simp add: demo_New demo_fields demo_Parse_env demo_Parse_def)
  have command:
    "goshCmd_Run ?E3 [''-c'', '')''] demo_state
       = Exits 1 (demo_state\<lparr>log := log demo_state @
           [Stderr (''Error: parse error: '' @ message ?err @ ''\<newline>'')]\<rparr>)"
    using parse_invalid_handling [
        where env = ?E3 and runner = "createExecHandler ?E3 ()" and err = ?err
          and s = demo_state and command = "'')''",
        THEN conjunct2, THEN mp, THEN conjunct2, THEN conjunct1]
    by (simp add: demo_New demo_Parse_env demo_Parse_def)
  have script:
    "goshCmd_Run ?E3 [''bad.sh''] demo_state
       = Exits 1 (demo_state\<lparr>log := log demo_state @
           [FileOpened ([''bad.sh''] ! 0), FileClosed ([''bad.sh''] ! 0),
            Stderr (''Error: parse error: '' @ message ?err @ ''\<newline>'')]\<rparr>)"
    using parse_invalid_handling [
        where env = ?E3 and runner = "createExecHandler ?E3 ()" and err = ?err
          and s = demo_state and args = "[''bad.sh'']" and contents = "'')''",
        THEN conjunct2, THEN mp, THEN conjunct2, THEN conjunct2]
    by (simp add: demo_New demo_fields demo_Parse_env demo_Parse_def)
  show ?thesis
    using interactive piped command script
    by (simp add: demo_tail_failure demo_no_scan_err demo_state_def emit_def prompt_def
        del: scan_loop.simps(2))
qed

text \<open>
  C9. File mode on a script whose program ends with exit status 7: the process exits with
  code 7 while the script file is still open. The log at the exit holds the opening of the
  file and the run, and no closing: \<^verbatim>\<open>os.Exit\<close> inside \<^verbatim>\<open>runScript\<close> skips the deferred
  \<^verbatim>\<open>file.Close()\<close>. On the path of a parse error, which returns, the file is closed.
\<close>

theorem runScript_exit_leaves_file_open:
  "goshCmd_Run (demo_env True [] []) [''exit7.sh''] demo_state
     = Exits 7 \<lparr>log = [FileOpened ''exit7.sh'', RunnerRun [''ebcdic'', ''exit7'']],
                proc = \<lparr>os_Args = [''dimutils'', ''shell''], world = 0\<rparr>\<rparr>
   \<and> FileClosed ''exit7.sh'' \<notin> set (log (outcome_state
         (goshCmd_Run (demo_env True [] []) [''exit7.sh''] demo_state)))
   \<and> FileClosed ''bad.sh'' \<in> set (log (outcome_state
         (goshCmd_Run (demo_env True [] []) [''bad.sh''] demo_state)))"
proof -
  let ?E = "demo_env True [] []"
  have "Run ?E [''exit7.sh''] demo_state
          = runScript ?E (createExecHandler ?E ()) ''exit7.sh'' demo_state"
    using Run_script_file [OF demo_New, of "[''exit7.sh'']" True "[]" "[]" demo_state] by simp
  also have "\<dots> = Exits (uint (7 :: 8 word))
      (demo_state\<lparr>log := log demo_state @ [FileOpened ''exit7.sh'',
         RunnerRun [''ebcdic'', ''exit7'']], proc := proc demo_state\<rparr>)"
    by (rule runScript_exit [where contents = "''ebcdic exit7\<newline>''"])
       (simp_all add: demo_fields demo_Parse_env demo_Parse_def demo_exit7)
  finally have a: "goshCmd_Run ?E [''exit7.sh''] demo_state
     = Exits 7 \<lparr>log = [FileOpened ''exit7.sh'', RunnerRun [''ebcdic'', ''exit7'']],
                proc = \<lparr>os_Args = [''dimutils'', ''shell''], world = 0\<rparr>\<rparr>"
    by (simp add: goshCmd_Run_def demo_state_def)
  have "Run ?E [''bad.sh''] demo_state
          = runScript ?E (createExecHandler ?E ()) ''bad.sh'' demo_state"
    using Run_script_file [OF demo_New, of "[''bad.sh'']" True "[]" "[]" demo_state] by simp
  then have b: "goshCmd_Run ?E [''bad.sh''] demo_state
     = Exits 1 (demo_state\<lparr>log := [FileOpened ''bad.sh'', FileClosed ''bad.sh'',
         Stderr ''Error: parse error: not a valid command\<newline>'']\<rparr>)"
    by (simp add: goshCmd_Run_def runScript_def demo_fields demo_Parse_env demo_Parse_def
        emit_def demo_state_def)
  show ?thesis by (simp add: a b)
qed

end
